theory Spec2Isabelle
  imports Main
begin

section \<open>The issue and milestone bindings of github/issues.go\<close>

text \<open>
  The file declares the records of the issue and milestone resources and one method
  of \<open>IssuesService\<close> per endpoint. Every method formats a path, asks the client for
  a request, and hands the request to the client's \<open>Do\<close>. The client, the query
  encoder \<open>addOptions\<close> and the media type constant are declared in other files of
  the package: the methods below take them as parameters.
\<close>

subsection \<open>Go values\<close>

text \<open>
  A pointer \<open>*T\<close> is \<open>T option\<close> (\<open>None\<close> is \<open>nil\<close>). A slice \<open>[]T\<close> is a
  list that may be \<open>nil\<close>. An \<open>error\<close> carries its message.
\<close>

type_synonym 'a slice = "'a list option"

definition len :: "'a slice \<Rightarrow> nat" where
  "len s = (case s of None \<Rightarrow> 0 | Some xs \<Rightarrow> length xs)"

definition elems :: "'a slice \<Rightarrow> 'a list" where
  "elems s = (case s of None \<Rightarrow> [] | Some xs \<Rightarrow> xs)"

datatype error = Error string

text \<open>Types of the package that this file only passes around.\<close>

typedecl User
typedecl Label
typedecl Repository
typedecl Reactions
typedecl TextMatch
typedecl Timestamp

text \<open>
  \<open>time.Time\<close>, as far as the query encoder looks at it: whether it is the zero
  time, and its RFC 3339 text.
\<close>

record Time =
  IsZero :: bool
  RFC3339 :: string

subsection \<open>The resource records\<close>

record PullRequestLinks =
  URL :: "string option"
  HTMLURL :: "string option"
  DiffURL :: "string option"
  PatchURL :: "string option"
  MergedAt :: "Timestamp option"

record IssueType =
  ID :: "int option"
  NodeID :: "string option"
  Name :: "string option"
  Description :: "string option"
  Color :: "string option"
  CreatedAt :: "Timestamp option"
  UpdatedAt :: "Timestamp option"

record Milestone =
  URL :: "string option"
  HTMLURL :: "string option"
  LabelsURL :: "string option"
  ID :: "int option"
  Number :: "int option"
  State :: "string option"
  Title :: "string option"
  Description :: "string option"
  Creator :: "User option"
  OpenIssues :: "int option"
  ClosedIssues :: "int option"
  CreatedAt :: "Timestamp option"
  UpdatedAt :: "Timestamp option"
  ClosedAt :: "Timestamp option"
  DueOn :: "Timestamp option"
  NodeID :: "string option"

record Issue =
  ID :: "int option"
  Number :: "int option"
  State :: "string option"
  StateReason :: "string option"
  Locked :: "bool option"
  Title :: "string option"
  Body :: "string option"
  AuthorAssociation :: "string option"
  User :: "User option"
  Labels :: "Label option slice"
  Assignee :: "User option"
  Comments :: "int option"
  ClosedAt :: "Timestamp option"
  CreatedAt :: "Timestamp option"
  UpdatedAt :: "Timestamp option"
  ClosedBy :: "User option"
  URL :: "string option"
  HTMLURL :: "string option"
  CommentsURL :: "string option"
  EventsURL :: "string option"
  LabelsURL :: "string option"
  RepositoryURL :: "string option"
  Milestone :: "Milestone option"
  PullRequestLinks :: "PullRequestLinks option"
  Repository :: "Repository option"
  Reactions :: "Reactions option"
  Assignees :: "User option slice"
  NodeID :: "string option"
  Draft :: "bool option"
  Type :: "IssueType option"
  TextMatches :: "TextMatch option slice"
  ActiveLockReason :: "string option"

text \<open>\<open>new(Issue)\<close> and \<open>new(Milestone)\<close>: every field \<open>nil\<close>.\<close>

definition new_Issue :: Issue where
  "new_Issue = \<lparr> Issue.ID = None, Number = None, State = None, StateReason = None,
     Locked = None, Title = None, Body = None, AuthorAssociation = None, User = None,
     Labels = None, Assignee = None, Comments = None, ClosedAt = None, CreatedAt = None,
     UpdatedAt = None, ClosedBy = None, URL = None, HTMLURL = None, CommentsURL = None,
     EventsURL = None, LabelsURL = None, RepositoryURL = None, Milestone = None,
     PullRequestLinks = None, Repository = None, Reactions = None, Assignees = None,
     NodeID = None, Draft = None, Type = None, TextMatches = None,
     ActiveLockReason = None \<rparr>"

definition new_Milestone :: Milestone where
  "new_Milestone = \<lparr> Milestone.URL = None, HTMLURL = None, LabelsURL = None, ID = None,
     Number = None, State = None, Title = None, Description = None, Creator = None,
     OpenIssues = None, ClosedIssues = None, CreatedAt = None, UpdatedAt = None,
     ClosedAt = None, DueOn = None, NodeID = None \<rparr>"

definition IsPullRequest :: "Issue \<Rightarrow> bool" where
  "IsPullRequest i = (Issue.PullRequestLinks i \<noteq> None)"


subsection \<open>Request bodies\<close>

record IssueRequest =
  Title :: "string option"
  Body :: "string option"
  Labels :: "string slice option"
  Assignee :: "string option"
  State :: "string option"
  StateReason :: "string option"
  Milestone :: "int option"
  Assignees :: "string slice option"
  Type :: "string option"

record LockIssueOptions =
  LockReason :: string

text \<open>
  The anonymous struct that \<open>RemoveMilestone\<close> sends:
  \<^verbatim>\<open>struct { Milestone *Milestone `json:"milestone"` }\<close>.
\<close>

record milestone_patch =
  Milestone :: "Milestone option"

text \<open>
  The \<open>body any\<close> argument of \<open>NewRequest\<close>: the untyped \<open>nil\<close>, or a pointer of
  one of the four types this file passes (itself possibly \<open>nil\<close>).
\<close>

datatype body =
    nil_body
  | IssueRequest_body "IssueRequest option"
  | milestone_patch_body "milestone_patch option"
  | LockIssueOptions_body "LockIssueOptions option"
  | Milestone_body "Milestone option"

subsection \<open>JSON values and the json struct tags\<close>

datatype json =
    JNull
  | JBool bool
  | JNumber int
  | JString string
  | JArray "json list"
  | JObject "(string \<times> json) list"

text \<open>
  What \<open>encoding/json\<close> writes for the two body structs that the
  properties below read. A field tagged \<open>omitempty\<close> is left out when it is the empty string; a field
  without \<open>omitempty\<close> is always written, a \<open>nil\<close> pointer as \<open>null\<close>. The encoding
  of a milestone that is not \<open>nil\<close> is a parameter.
\<close>

definition marshal_LockIssueOptions :: "LockIssueOptions \<Rightarrow> json" where
  "marshal_LockIssueOptions opts =
     JObject (if LockReason opts = [] then []
              else [(''lock_reason'', JString (LockReason opts))])"

definition marshal_milestone_patch :: "(Milestone \<Rightarrow> json) \<Rightarrow> milestone_patch \<Rightarrow> json" where
  "marshal_milestone_patch marshal_Milestone b =
     JObject [(''milestone'',
       (case milestone_patch.Milestone b of None \<Rightarrow> JNull | Some m \<Rightarrow> marshal_Milestone m))]"

text \<open>A pointer to the options: \<open>nil\<close> is written as \<open>null\<close>.\<close>

definition marshal_LockIssueOptions_ptr :: "LockIssueOptions option \<Rightarrow> json" where
  "marshal_LockIssueOptions_ptr opts =
     (case opts of None \<Rightarrow> JNull | Some v \<Rightarrow> marshal_LockIssueOptions v)"

subsection \<open>Decoding an issue from JSON\<close>

text \<open>
  What \<open>encoding/json\<close> makes of a JSON object decoded into an \<open>Issue\<close>, read off
  the \<open>json\<close> tags of the struct. The members are taken in order. A member goes to
  the field whose tag is its name, or else to the first field whose tag equals its name
  after case folding (the folding of names is a parameter); a member that names no field
  is skipped. A value stored into a pointer field makes the pointer \<open>nil\<close> when it is
  \<open>null\<close>; any other value is decoded into what the pointer points to, a fresh zero
  value when the pointer was \<open>nil\<close> (a value of the wrong kind leaves that zero value
  behind). How a value is decoded into an integer, a string, a boolean or one of the
  structs of this file is a parameter, and so is the whole store into a field whose type
  is declared elsewhere in the package. A JSON value that is no object leaves the
  \<open>Issue\<close> as it was.
\<close>

definition new_PullRequestLinks :: PullRequestLinks where
  "new_PullRequestLinks = \<lparr> PullRequestLinks.URL = None, HTMLURL = None, DiffURL = None,
     PatchURL = None, MergedAt = None \<rparr>"

definition new_IssueType :: IssueType where
  "new_IssueType = \<lparr> IssueType.ID = None, NodeID = None, Name = None, Description = None,
     Color = None, CreatedAt = None, UpdatedAt = None \<rparr>"

definition store_ptr :: "'a \<Rightarrow> (json \<Rightarrow> 'a \<Rightarrow> 'a) \<Rightarrow> json \<Rightarrow> 'a option \<Rightarrow> 'a option" where
  "store_ptr zero dec v p =
     (if v = JNull then None
      else Some (dec v (case p of None \<Rightarrow> zero | Some x \<Rightarrow> x)))"

record decoders =
  dec_int64 :: "json \<Rightarrow> int \<Rightarrow> int"
  dec_int :: "json \<Rightarrow> int \<Rightarrow> int"
  dec_string :: "json \<Rightarrow> string \<Rightarrow> string"
  dec_bool :: "json \<Rightarrow> bool \<Rightarrow> bool"
  dec_Milestone :: "json \<Rightarrow> Milestone \<Rightarrow> Milestone"
  dec_PullRequestLinks :: "json \<Rightarrow> PullRequestLinks \<Rightarrow> PullRequestLinks"
  dec_IssueType :: "json \<Rightarrow> IssueType \<Rightarrow> IssueType"
  store_User :: "json \<Rightarrow> User option \<Rightarrow> User option"
  store_Repository :: "json \<Rightarrow> Repository option \<Rightarrow> Repository option"
  store_Reactions :: "json \<Rightarrow> Reactions option \<Rightarrow> Reactions option"
  store_Timestamp :: "json \<Rightarrow> Timestamp option \<Rightarrow> Timestamp option"
  store_Labels :: "json \<Rightarrow> Label option slice \<Rightarrow> Label option slice"
  store_Users :: "json \<Rightarrow> User option slice \<Rightarrow> User option slice"
  store_TextMatches :: "json \<Rightarrow> TextMatch option slice \<Rightarrow> TextMatch option slice"

definition Issue_tags :: "string list" where
  "Issue_tags =
     [''id'', ''number'', ''state'', ''state_reason'', ''locked'', ''title'', ''body'',
      ''author_association'', ''user'', ''labels'', ''assignee'', ''comments'', ''closed_at'',
      ''created_at'', ''updated_at'', ''closed_by'', ''url'', ''html_url'', ''comments_url'',
      ''events_url'', ''labels_url'', ''repository_url'', ''milestone'', ''pull_request'',
      ''repository'', ''reactions'', ''assignees'', ''node_id'', ''draft'', ''type'',
      ''text_matches'', ''active_lock_reason'']"

definition field_for :: "(string \<Rightarrow> string) \<Rightarrow> string list \<Rightarrow> string \<Rightarrow> string option" where
  "field_for foldName tags n =
     (case find (\<lambda>t. t = n) tags of
        Some t \<Rightarrow> Some t
      | None \<Rightarrow> find (\<lambda>t. foldName t = foldName n) tags)"

definition store_Issue_field :: "decoders \<Rightarrow> string \<Rightarrow> json \<Rightarrow> Issue \<Rightarrow> Issue" where
  "store_Issue_field D t v i =
     (if t = ''id'' then i\<lparr> Issue.ID := store_ptr 0 (dec_int64 D) v (Issue.ID i) \<rparr>
      else if t = ''number'' then
        i\<lparr> Issue.Number := store_ptr 0 (dec_int D) v (Issue.Number i) \<rparr>
      else if t = ''state'' then
        i\<lparr> Issue.State := store_ptr [] (dec_string D) v (Issue.State i) \<rparr>
      else if t = ''state_reason'' then
        i\<lparr> Issue.StateReason := store_ptr [] (dec_string D) v (Issue.StateReason i) \<rparr>
      else if t = ''locked'' then
        i\<lparr> Issue.Locked := store_ptr False (dec_bool D) v (Issue.Locked i) \<rparr>
      else if t = ''title'' then
        i\<lparr> Issue.Title := store_ptr [] (dec_string D) v (Issue.Title i) \<rparr>
      else if t = ''body'' then
        i\<lparr> Issue.Body := store_ptr [] (dec_string D) v (Issue.Body i) \<rparr>
      else if t = ''author_association'' then
        i\<lparr> Issue.AuthorAssociation :=
             store_ptr [] (dec_string D) v (Issue.AuthorAssociation i) \<rparr>
      else if t = ''user'' then
        i\<lparr> Issue.User := store_User D v (Issue.User i) \<rparr>
      else if t = ''labels'' then
        i\<lparr> Issue.Labels := store_Labels D v (Issue.Labels i) \<rparr>
      else if t = ''assignee'' then
        i\<lparr> Issue.Assignee := store_User D v (Issue.Assignee i) \<rparr>
      else if t = ''comments'' then
        i\<lparr> Issue.Comments := store_ptr 0 (dec_int D) v (Issue.Comments i) \<rparr>
      else if t = ''closed_at'' then
        i\<lparr> Issue.ClosedAt :=
             store_Timestamp D v (Issue.ClosedAt i) \<rparr>
      else if t = ''created_at'' then
        i\<lparr> Issue.CreatedAt :=
             store_Timestamp D v (Issue.CreatedAt i) \<rparr>
      else if t = ''updated_at'' then
        i\<lparr> Issue.UpdatedAt :=
             store_Timestamp D v (Issue.UpdatedAt i) \<rparr>
      else if t = ''closed_by'' then
        i\<lparr> Issue.ClosedBy := store_User D v (Issue.ClosedBy i) \<rparr>
      else if t = ''url'' then
        i\<lparr> Issue.URL := store_ptr [] (dec_string D) v (Issue.URL i) \<rparr>
      else if t = ''html_url'' then
        i\<lparr> Issue.HTMLURL := store_ptr [] (dec_string D) v (Issue.HTMLURL i) \<rparr>
      else if t = ''comments_url'' then
        i\<lparr> Issue.CommentsURL := store_ptr [] (dec_string D) v (Issue.CommentsURL i) \<rparr>
      else if t = ''events_url'' then
        i\<lparr> Issue.EventsURL := store_ptr [] (dec_string D) v (Issue.EventsURL i) \<rparr>
      else if t = ''labels_url'' then
        i\<lparr> Issue.LabelsURL := store_ptr [] (dec_string D) v (Issue.LabelsURL i) \<rparr>
      else if t = ''repository_url'' then
        i\<lparr> Issue.RepositoryURL := store_ptr [] (dec_string D) v (Issue.RepositoryURL i) \<rparr>
      else if t = ''milestone'' then
        i\<lparr> Issue.Milestone :=
             store_ptr new_Milestone (dec_Milestone D) v (Issue.Milestone i) \<rparr>
      else if t = ''pull_request'' then
        i\<lparr> Issue.PullRequestLinks :=
             store_ptr new_PullRequestLinks (dec_PullRequestLinks D) v
               (Issue.PullRequestLinks i) \<rparr>
      else if t = ''repository'' then
        i\<lparr> Issue.Repository :=
             store_Repository D v (Issue.Repository i) \<rparr>
      else if t = ''reactions'' then
        i\<lparr> Issue.Reactions :=
             store_Reactions D v (Issue.Reactions i) \<rparr>
      else if t = ''assignees'' then
        i\<lparr> Issue.Assignees := store_Users D v (Issue.Assignees i) \<rparr>
      else if t = ''node_id'' then
        i\<lparr> Issue.NodeID := store_ptr [] (dec_string D) v (Issue.NodeID i) \<rparr>
      else if t = ''draft'' then
        i\<lparr> Issue.Draft := store_ptr False (dec_bool D) v (Issue.Draft i) \<rparr>
      else if t = ''type'' then
        i\<lparr> Issue.Type := store_ptr new_IssueType (dec_IssueType D) v (Issue.Type i) \<rparr>
      else if t = ''text_matches'' then
        i\<lparr> Issue.TextMatches := store_TextMatches D v (Issue.TextMatches i) \<rparr>
      else if t = ''active_lock_reason'' then
        i\<lparr> Issue.ActiveLockReason :=
             store_ptr [] (dec_string D) v (Issue.ActiveLockReason i) \<rparr>
      else i)"

fun decode_members ::
  "decoders \<Rightarrow> (string \<Rightarrow> string) \<Rightarrow> (string \<times> json) list \<Rightarrow> Issue \<Rightarrow> Issue" where
  "decode_members D foldName [] i = i"
| "decode_members D foldName ((n, v) # ms) i =
     decode_members D foldName ms
       (case field_for foldName Issue_tags n of
          None \<Rightarrow> i
        | Some t \<Rightarrow> store_Issue_field D t v i)"

definition Unmarshal_Issue ::
  "decoders \<Rightarrow> (string \<Rightarrow> string) \<Rightarrow> json \<Rightarrow> Issue \<Rightarrow> Issue" where
  "Unmarshal_Issue D foldName j i =
     (case j of JObject ms \<Rightarrow> decode_members D foldName ms i | _ \<Rightarrow> i)"

definition pull_request_values :: "(string \<Rightarrow> string) \<Rightarrow> (string \<times> json) list \<Rightarrow> json list" where
  "pull_request_values foldName ms =
     map snd (filter (\<lambda>m. field_for foldName Issue_tags (fst m) = Some ''pull_request'') ms)"

subsection \<open>Formatting paths: \<open>fmt.Sprintf\<close>\<close>

text \<open>
  A format string is written as its pieces: literal text, \<open>%v\<close> and \<open>%d\<close> (the two
  verbs of this file). An operand is a string or an \<open>int\<close>. \<open>%v\<close> prints a string
  as it is and an integer in decimal; \<open>%d\<close> prints an integer in decimal and flags a
  string; a verb without operand and an operand without verb are flagged as
  \<open>fmt\<close> flags them.
\<close>

datatype piece = Lit string | Verb_v | Verb_d

datatype arg = String_arg string | Int_arg int

fun digits :: "nat \<Rightarrow> string" where
  "digits n =
     (if n < 10 then [''0123456789'' ! n]
      else digits (n div 10) @ [''0123456789'' ! (n mod 10)])"

declare digits.simps [simp del]

definition itoa :: "int \<Rightarrow> string" where
  "itoa i = (if i < 0 then CHR ''-'' # digits (nat (- i)) else digits (nat i))"

text \<open>The number that a string of decimal digits denotes.\<close>

definition digit_value :: "char \<Rightarrow> nat" where
  "digit_value c = of_char c - 48"

definition decimal_value :: "string \<Rightarrow> nat" where
  "decimal_value s = foldl (\<lambda>a c. 10 * a + digit_value c) 0 s"

fun Join :: "string list \<Rightarrow> string \<Rightarrow> string" where
  "Join [] sep = []"
| "Join [x] sep = x"
| "Join (x # y # ys) sep = x @ sep @ Join (y # ys) sep"

fun fmt_v :: "arg \<Rightarrow> string" where
  "fmt_v (String_arg s) = s"
| "fmt_v (Int_arg i) = itoa i"

fun fmt_d :: "arg \<Rightarrow> string" where
  "fmt_d (Int_arg i) = itoa i"
| "fmt_d (String_arg s) = ''%!d(string='' @ s @ '')''"

fun extra :: "arg \<Rightarrow> string" where
  "extra (String_arg s) = ''string='' @ s"
| "extra (Int_arg i) = ''int='' @ itoa i"

fun Sprintf :: "piece list \<Rightarrow> arg list \<Rightarrow> string" where
  "Sprintf [] [] = []"
| "Sprintf [] (a # args) = ''%!(EXTRA '' @ Join (map extra (a # args)) '', '' @ '')''"
| "Sprintf (Lit s # ps) args = s @ Sprintf ps args"
| "Sprintf (Verb_v # ps) [] = ''%!v(MISSING)'' @ Sprintf ps []"
| "Sprintf (Verb_v # ps) (a # args) = fmt_v a @ Sprintf ps args"
| "Sprintf (Verb_d # ps) [] = ''%!d(MISSING)'' @ Sprintf ps []"
| "Sprintf (Verb_d # ps) (a # args) = fmt_d a @ Sprintf ps args"

subsection \<open>The list options and their url tags\<close>

text \<open>
  A struct as the query encoder reads it: its fields in declaration order, each with
  its Go name, its \<open>url\<close> tag and its value; an embedded struct with its type name
  and its own fields.
\<close>

datatype qvalue =
    String_value string
  | Int_value int
  | Strings_value "string slice"
  | Time_value Time

datatype qfield =
    Field string string qvalue
  | Embedded string "qfield list"

text \<open>
  \<open>ListOptions\<close> (offset pagination) and \<open>ListCursorOptions\<close> (cursor pagination)
  are declared in another file of the package. A record that embeds one holds the
  fragment's value as its tagged fields.
\<close>

record IssueListOptions =
  Filter :: string
  State :: string
  Labels :: "string slice"
  Sort :: string
  Direction :: string
  Since :: Time
  ListCursorOptions :: "qfield list"
  ListOptions :: "qfield list"

record IssueListByRepoOptions =
  Milestone :: string
  State :: string
  Assignee :: string
  Creator :: string
  Mentioned :: string
  Labels :: "string slice"
  Sort :: string
  Direction :: string
  Since :: Time
  ListCursorOptions :: "qfield list"
  ListOptions :: "qfield list"

record MilestoneListOptions =
  State :: string
  Sort :: string
  Direction :: string
  ListOptions :: "qfield list"

definition fields_IssueListOptions :: "IssueListOptions \<Rightarrow> qfield list" where
  "fields_IssueListOptions opts =
     [Field ''Filter'' ''filter,omitempty'' (String_value (IssueListOptions.Filter opts)),
      Field ''State'' ''state,omitempty'' (String_value (IssueListOptions.State opts)),
      Field ''Labels'' ''labels,comma,omitempty'' (Strings_value (IssueListOptions.Labels opts)),
      Field ''Sort'' ''sort,omitempty'' (String_value (IssueListOptions.Sort opts)),
      Field ''Direction'' ''direction,omitempty'' (String_value (IssueListOptions.Direction opts)),
      Field ''Since'' ''since,omitempty'' (Time_value (IssueListOptions.Since opts)),
      Embedded ''ListCursorOptions'' (IssueListOptions.ListCursorOptions opts),
      Embedded ''ListOptions'' (IssueListOptions.ListOptions opts)]"

definition fields_IssueListByRepoOptions :: "IssueListByRepoOptions \<Rightarrow> qfield list" where
  "fields_IssueListByRepoOptions opts =
     [Field ''Milestone'' ''milestone,omitempty'' (String_value (IssueListByRepoOptions.Milestone opts)),
      Field ''State'' ''state,omitempty'' (String_value (IssueListByRepoOptions.State opts)),
      Field ''Assignee'' ''assignee,omitempty'' (String_value (IssueListByRepoOptions.Assignee opts)),
      Field ''Creator'' ''creator,omitempty'' (String_value (IssueListByRepoOptions.Creator opts)),
      Field ''Mentioned'' ''mentioned,omitempty'' (String_value (IssueListByRepoOptions.Mentioned opts)),
      Field ''Labels'' ''labels,omitempty,comma'' (Strings_value (IssueListByRepoOptions.Labels opts)),
      Field ''Sort'' ''sort,omitempty'' (String_value (IssueListByRepoOptions.Sort opts)),
      Field ''Direction'' ''direction,omitempty'' (String_value (IssueListByRepoOptions.Direction opts)),
      Field ''Since'' ''since,omitempty'' (Time_value (IssueListByRepoOptions.Since opts)),
      Embedded ''ListCursorOptions'' (IssueListByRepoOptions.ListCursorOptions opts),
      Embedded ''ListOptions'' (IssueListByRepoOptions.ListOptions opts)]"

definition fields_MilestoneListOptions :: "MilestoneListOptions \<Rightarrow> qfield list" where
  "fields_MilestoneListOptions opts =
     [Field ''State'' ''state,omitempty'' (String_value (MilestoneListOptions.State opts)),
      Field ''Sort'' ''sort,omitempty'' (String_value (MilestoneListOptions.Sort opts)),
      Field ''Direction'' ''direction,omitempty'' (String_value (MilestoneListOptions.Direction opts)),
      Embedded ''ListOptions'' (MilestoneListOptions.ListOptions opts)]"

text \<open>
  The \<open>opts any\<close> argument of \<open>addOptions\<close>: a pointer to one of the three list
  options records.
\<close>

datatype options =
    IssueListOptions_ptr "IssueListOptions option"
  | IssueListByRepoOptions_ptr "IssueListByRepoOptions option"
  | MilestoneListOptions_ptr "MilestoneListOptions option"

subsection \<open>The client and the package-level helpers\<close>

text \<open>
  \<open>http.Request\<close>, as far as this file touches it: \<open>Header.Set\<close> replaces the
  values stored under a key by the one given (\<open>Accept\<close> is already in canonical form).
\<close>

record Request =
  Method :: string
  URL :: string
  Header :: "string \<rightharpoonup> string list"

definition Header_Set :: "string \<Rightarrow> string \<Rightarrow> Request \<Rightarrow> Request" where
  "Header_Set key v req = req\<lparr> Header := (Header req)(key \<mapsto> [v]) \<rparr>"

text \<open>\<open>Response\<close> is declared elsewhere; the methods only hand it on.\<close>

record Response =
  StatusCode :: int

text \<open>
  The client. \<open>NewRequest(method, urlStr, body)\<close> returns a request or an error.
  \<open>Do(ctx, req, v)\<close> returns a response and an error and decodes into \<open>v\<close>: there is
  one field per type of \<open>v\<close> this file passes, taking what \<open>v\<close> points to
  before the call and returning it as it is after the call. The context is handed on
  unchanged and left out. A method calls each of them at most once, so that a function
  of the arguments stands for any behaviour of the client.
\<close>

record Client =
  NewRequest :: "string \<Rightarrow> string \<Rightarrow> body \<Rightarrow> error + Request"
  Do_Issues :: "Request \<Rightarrow> Issue option slice
                  \<Rightarrow> Response option \<times> error option \<times> Issue option slice"
  Do_Issue :: "Request \<Rightarrow> Issue \<Rightarrow> Response option \<times> error option \<times> Issue"
  Do_Milestones :: "Request \<Rightarrow> Milestone option slice
                  \<Rightarrow> Response option \<times> error option \<times> Milestone option slice"
  Do_Milestone :: "Request \<Rightarrow> Milestone \<Rightarrow> Response option \<times> error option \<times> Milestone"
  Do_nil :: "Request \<Rightarrow> Response option \<times> error option"

record IssuesService =
  client :: Client

text \<open>What the file uses of the rest of the package.\<close>

record package =
  mediaTypeReactionsPreview :: string
  addOptions :: "string \<Rightarrow> options \<Rightarrow> error + string"

text \<open>
  The calls a method makes, in order, each call of \<open>addOptions\<close> and \<open>NewRequest\<close>
  with what it returned.
\<close>

datatype call =
    addOptions_call string options "error + string"
  | NewRequest_call string string body "error + Request"
  | Do_call Request

type_synonym 'a result = "('a \<times> Response option \<times> error option) \<times> call list"

subsection \<open>Issues\<close>

definition listIssues ::
  "package \<Rightarrow> IssuesService \<Rightarrow> string \<Rightarrow> IssueListOptions option
     \<Rightarrow> Issue option slice result" where
  "listIssues p s u opts =
     (let r1 = addOptions p u (IssueListOptions_ptr opts);
          c1 = addOptions_call u (IssueListOptions_ptr opts) r1
      in case r1 of
           Inl err \<Rightarrow> ((None, None, Some err), [c1])
         | Inr u' \<Rightarrow>
            (let r2 = NewRequest (client s) ''GET'' u' nil_body;
                 c2 = NewRequest_call ''GET'' u' nil_body r2
             in case r2 of
                  Inl err \<Rightarrow> ((None, None, Some err), [c1, c2])
                | Inr req0 \<Rightarrow>
                   (let req = Header_Set ''Accept'' (mediaTypeReactionsPreview p) req0;
                        (resp, err, issues) = Do_Issues (client s) req None
                    in case err of
                         Some e \<Rightarrow> ((None, resp, Some e), [c1, c2, Do_call req])
                       | None \<Rightarrow> ((issues, resp, None), [c1, c2, Do_call req]))))"

definition List ::
  "package \<Rightarrow> IssuesService \<Rightarrow> bool \<Rightarrow> IssueListOptions option
     \<Rightarrow> Issue option slice result" where
  "List p s all opts =
     (let u = (if all then ''issues'' else ''user/issues'')
      in listIssues p s u opts)"

definition ListByOrg ::
  "package \<Rightarrow> IssuesService \<Rightarrow> string \<Rightarrow> IssueListOptions option
     \<Rightarrow> Issue option slice result" where
  "ListByOrg p s org opts =
     (let u = Sprintf [Lit ''orgs/'', Verb_v, Lit ''/issues''] [String_arg org]
      in listIssues p s u opts)"

definition ListByRepo ::
  "package \<Rightarrow> IssuesService \<Rightarrow> string \<Rightarrow> string \<Rightarrow> IssueListByRepoOptions option
     \<Rightarrow> Issue option slice result" where
  "ListByRepo p s owner repo opts =
     (let u = Sprintf [Lit ''repos/'', Verb_v, Lit ''/'', Verb_v, Lit ''/issues'']
                [String_arg owner, String_arg repo];
          r1 = addOptions p u (IssueListByRepoOptions_ptr opts);
          c1 = addOptions_call u (IssueListByRepoOptions_ptr opts) r1
      in case r1 of
           Inl err \<Rightarrow> ((None, None, Some err), [c1])
         | Inr u' \<Rightarrow>
            (let r2 = NewRequest (client s) ''GET'' u' nil_body;
                 c2 = NewRequest_call ''GET'' u' nil_body r2
             in case r2 of
                  Inl err \<Rightarrow> ((None, None, Some err), [c1, c2])
                | Inr req0 \<Rightarrow>
                   (let req = Header_Set ''Accept'' (mediaTypeReactionsPreview p) req0;
                        (resp, err, issues) = Do_Issues (client s) req None
                    in case err of
                         Some e \<Rightarrow> ((None, resp, Some e), [c1, c2, Do_call req])
                       | None \<Rightarrow> ((issues, resp, None), [c1, c2, Do_call req]))))"

definition Get ::
  "package \<Rightarrow> IssuesService \<Rightarrow> string \<Rightarrow> string \<Rightarrow> int \<Rightarrow> Issue option result" where
  "Get p s owner repo number =
     (let u = Sprintf [Lit ''repos/'', Verb_v, Lit ''/'', Verb_v, Lit ''/issues/'', Verb_d]
                [String_arg owner, String_arg repo, Int_arg number];
          r = NewRequest (client s) ''GET'' u nil_body;
          c = NewRequest_call ''GET'' u nil_body r
      in case r of
           Inl err \<Rightarrow> ((None, None, Some err), [c])
         | Inr req0 \<Rightarrow>
            (let req = Header_Set ''Accept'' (mediaTypeReactionsPreview p) req0;
                 (resp, err, issue) = Do_Issue (client s) req new_Issue
             in case err of
                  Some e \<Rightarrow> ((None, resp, Some e), [c, Do_call req])
                | None \<Rightarrow> ((Some issue, resp, None), [c, Do_call req])))"

definition Create ::
  "IssuesService \<Rightarrow> string \<Rightarrow> string \<Rightarrow> IssueRequest option \<Rightarrow> Issue option result" where
  "Create s owner repo issue =
     (let u = Sprintf [Lit ''repos/'', Verb_v, Lit ''/'', Verb_v, Lit ''/issues'']
                [String_arg owner, String_arg repo];
          r = NewRequest (client s) ''POST'' u (IssueRequest_body issue);
          c = NewRequest_call ''POST'' u (IssueRequest_body issue) r
      in case r of
           Inl err \<Rightarrow> ((None, None, Some err), [c])
         | Inr req \<Rightarrow>
            (let (resp, err, i) = Do_Issue (client s) req new_Issue
             in case err of
                  Some e \<Rightarrow> ((None, resp, Some e), [c, Do_call req])
                | None \<Rightarrow> ((Some i, resp, None), [c, Do_call req])))"

definition Edit ::
  "IssuesService \<Rightarrow> string \<Rightarrow> string \<Rightarrow> int \<Rightarrow> IssueRequest option
     \<Rightarrow> Issue option result" where
  "Edit s owner repo number issue =
     (let u = Sprintf [Lit ''repos/'', Verb_v, Lit ''/'', Verb_v, Lit ''/issues/'', Verb_d]
                [String_arg owner, String_arg repo, Int_arg number];
          r = NewRequest (client s) ''PATCH'' u (IssueRequest_body issue);
          c = NewRequest_call ''PATCH'' u (IssueRequest_body issue) r
      in case r of
           Inl err \<Rightarrow> ((None, None, Some err), [c])
         | Inr req \<Rightarrow>
            (let (resp, err, i) = Do_Issue (client s) req new_Issue
             in case err of
                  Some e \<Rightarrow> ((None, resp, Some e), [c, Do_call req])
                | None \<Rightarrow> ((Some i, resp, None), [c, Do_call req])))"

definition RemoveMilestone ::
  "IssuesService \<Rightarrow> string \<Rightarrow> string \<Rightarrow> int \<Rightarrow> Issue option result" where
  "RemoveMilestone s owner repo issueNumber =
     (let u = Sprintf [Lit ''repos/'', Verb_v, Lit ''/'', Verb_v, Lit ''/issues/'', Verb_v]
                [String_arg owner, String_arg repo, Int_arg issueNumber];
          b = milestone_patch_body (Some \<lparr> milestone_patch.Milestone = None \<rparr>);
          r = NewRequest (client s) ''PATCH'' u b;
          c = NewRequest_call ''PATCH'' u b r
      in case r of
           Inl err \<Rightarrow> ((None, None, Some err), [c])
         | Inr req \<Rightarrow>
            (let (resp, err, i) = Do_Issue (client s) req new_Issue
             in case err of
                  Some e \<Rightarrow> ((None, resp, Some e), [c, Do_call req])
                | None \<Rightarrow> ((Some i, resp, None), [c, Do_call req])))"

definition Lock ::
  "IssuesService \<Rightarrow> string \<Rightarrow> string \<Rightarrow> int \<Rightarrow> LockIssueOptions option
     \<Rightarrow> (Response option \<times> error option) \<times> call list" where
  "Lock s owner repo number opts =
     (let u = Sprintf [Lit ''repos/'', Verb_v, Lit ''/'', Verb_v, Lit ''/issues/'', Verb_d,
                       Lit ''/lock'']
                [String_arg owner, String_arg repo, Int_arg number];
          r = NewRequest (client s) ''PUT'' u (LockIssueOptions_body opts);
          c = NewRequest_call ''PUT'' u (LockIssueOptions_body opts) r
      in case r of
           Inl err \<Rightarrow> ((None, Some err), [c])
         | Inr req \<Rightarrow> (Do_nil (client s) req, [c, Do_call req]))"

definition Unlock ::
  "IssuesService \<Rightarrow> string \<Rightarrow> string \<Rightarrow> int
     \<Rightarrow> (Response option \<times> error option) \<times> call list" where
  "Unlock s owner repo number =
     (let u = Sprintf [Lit ''repos/'', Verb_v, Lit ''/'', Verb_v, Lit ''/issues/'', Verb_d,
                       Lit ''/lock'']
                [String_arg owner, String_arg repo, Int_arg number];
          r = NewRequest (client s) ''DELETE'' u nil_body;
          c = NewRequest_call ''DELETE'' u nil_body r
      in case r of
           Inl err \<Rightarrow> ((None, Some err), [c])
         | Inr req \<Rightarrow> (Do_nil (client s) req, [c, Do_call req]))"

subsection \<open>Milestones\<close>

definition ListMilestones ::
  "package \<Rightarrow> IssuesService \<Rightarrow> string \<Rightarrow> string \<Rightarrow> MilestoneListOptions option
     \<Rightarrow> Milestone option slice result" where
  "ListMilestones p s owner repo opts =
     (let u = Sprintf [Lit ''repos/'', Verb_v, Lit ''/'', Verb_v, Lit ''/milestones'']
                [String_arg owner, String_arg repo];
          r1 = addOptions p u (MilestoneListOptions_ptr opts);
          c1 = addOptions_call u (MilestoneListOptions_ptr opts) r1
      in case r1 of
           Inl err \<Rightarrow> ((None, None, Some err), [c1])
         | Inr u' \<Rightarrow>
            (let r2 = NewRequest (client s) ''GET'' u' nil_body;
                 c2 = NewRequest_call ''GET'' u' nil_body r2
             in case r2 of
                  Inl err \<Rightarrow> ((None, None, Some err), [c1, c2])
                | Inr req \<Rightarrow>
                   (let (resp, err, milestones) = Do_Milestones (client s) req None
                    in case err of
                         Some e \<Rightarrow> ((None, resp, Some e), [c1, c2, Do_call req])
                       | None \<Rightarrow> ((milestones, resp, None), [c1, c2, Do_call req]))))"

definition GetMilestone ::
  "IssuesService \<Rightarrow> string \<Rightarrow> string \<Rightarrow> int \<Rightarrow> Milestone option result" where
  "GetMilestone s owner repo number =
     (let u = Sprintf [Lit ''repos/'', Verb_v, Lit ''/'', Verb_v, Lit ''/milestones/'', Verb_d]
                [String_arg owner, String_arg repo, Int_arg number];
          r = NewRequest (client s) ''GET'' u nil_body;
          c = NewRequest_call ''GET'' u nil_body r
      in case r of
           Inl err \<Rightarrow> ((None, None, Some err), [c])
         | Inr req \<Rightarrow>
            (let (resp, err, milestone) = Do_Milestone (client s) req new_Milestone
             in case err of
                  Some e \<Rightarrow> ((None, resp, Some e), [c, Do_call req])
                | None \<Rightarrow> ((Some milestone, resp, None), [c, Do_call req])))"

definition CreateMilestone ::
  "IssuesService \<Rightarrow> string \<Rightarrow> string \<Rightarrow> Milestone option \<Rightarrow> Milestone option result" where
  "CreateMilestone s owner repo milestone =
     (let u = Sprintf [Lit ''repos/'', Verb_v, Lit ''/'', Verb_v, Lit ''/milestones'']
                [String_arg owner, String_arg repo];
          r = NewRequest (client s) ''POST'' u (Milestone_body milestone);
          c = NewRequest_call ''POST'' u (Milestone_body milestone) r
      in case r of
           Inl err \<Rightarrow> ((None, None, Some err), [c])
         | Inr req \<Rightarrow>
            (let (resp, err, m) = Do_Milestone (client s) req new_Milestone
             in case err of
                  Some e \<Rightarrow> ((None, resp, Some e), [c, Do_call req])
                | None \<Rightarrow> ((Some m, resp, None), [c, Do_call req])))"

definition EditMilestone ::
  "IssuesService \<Rightarrow> string \<Rightarrow> string \<Rightarrow> int \<Rightarrow> Milestone option
     \<Rightarrow> Milestone option result" where
  "EditMilestone s owner repo number milestone =
     (let u = Sprintf [Lit ''repos/'', Verb_v, Lit ''/'', Verb_v, Lit ''/milestones/'', Verb_d]
                [String_arg owner, String_arg repo, Int_arg number];
          r = NewRequest (client s) ''PATCH'' u (Milestone_body milestone);
          c = NewRequest_call ''PATCH'' u (Milestone_body milestone) r
      in case r of
           Inl err \<Rightarrow> ((None, None, Some err), [c])
         | Inr req \<Rightarrow>
            (let (resp, err, m) = Do_Milestone (client s) req new_Milestone
             in case err of
                  Some e \<Rightarrow> ((None, resp, Some e), [c, Do_call req])
                | None \<Rightarrow> ((Some m, resp, None), [c, Do_call req])))"

definition DeleteMilestone ::
  "IssuesService \<Rightarrow> string \<Rightarrow> string \<Rightarrow> int
     \<Rightarrow> (Response option \<times> error option) \<times> call list" where
  "DeleteMilestone s owner repo number =
     (let u = Sprintf [Lit ''repos/'', Verb_v, Lit ''/'', Verb_v, Lit ''/milestones/'', Verb_d]
                [String_arg owner, String_arg repo, Int_arg number];
          r = NewRequest (client s) ''DELETE'' u nil_body;
          c = NewRequest_call ''DELETE'' u nil_body r
      in case r of
           Inl err \<Rightarrow> ((None, Some err), [c])
         | Inr req \<Rightarrow> (Do_nil (client s) req, [c, Do_call req]))"

subsection \<open>The methods under one type\<close>

text \<open>
  A call of any of the fourteen methods, and what it returns: the entity or list (for
  the methods that have one), the response and the error.
\<close>

datatype operation =
    List_op bool "IssueListOptions option"
  | ListByOrg_op string "IssueListOptions option"
  | ListByRepo_op string string "IssueListByRepoOptions option"
  | Get_op string string int
  | Create_op string string "IssueRequest option"
  | Edit_op string string int "IssueRequest option"
  | RemoveMilestone_op string string int
  | Lock_op string string int "LockIssueOptions option"
  | Unlock_op string string int
  | ListMilestones_op string string "MilestoneListOptions option"
  | GetMilestone_op string string int
  | CreateMilestone_op string string "Milestone option"
  | EditMilestone_op string string int "Milestone option"
  | DeleteMilestone_op string string int

datatype returned =
    Issues "Issue option slice"
  | Issue_ptr "Issue option"
  | Milestones "Milestone option slice"
  | Milestone_ptr "Milestone option"
  | no_value

definition with_value :: "('a \<Rightarrow> returned) \<Rightarrow> 'a result \<Rightarrow> returned result" where
  "with_value f r = (case r of ((v, resp, err), cs) \<Rightarrow> ((f v, resp, err), cs))"

definition without_value ::
  "(Response option \<times> error option) \<times> call list \<Rightarrow> returned result" where
  "without_value r = (case r of ((resp, err), cs) \<Rightarrow> ((no_value, resp, err), cs))"

fun invoke :: "package \<Rightarrow> IssuesService \<Rightarrow> operation \<Rightarrow> returned result" where
  "invoke p s (List_op all opts) = with_value Issues (List p s all opts)"
| "invoke p s (ListByOrg_op org opts) = with_value Issues (ListByOrg p s org opts)"
| "invoke p s (ListByRepo_op owner repo opts) =
     with_value Issues (ListByRepo p s owner repo opts)"
| "invoke p s (Get_op owner repo number) = with_value Issue_ptr (Get p s owner repo number)"
| "invoke p s (Create_op owner repo issue) = with_value Issue_ptr (Create s owner repo issue)"
| "invoke p s (Edit_op owner repo number issue) =
     with_value Issue_ptr (Edit s owner repo number issue)"
| "invoke p s (RemoveMilestone_op owner repo issueNumber) =
     with_value Issue_ptr (RemoveMilestone s owner repo issueNumber)"
| "invoke p s (Lock_op owner repo number opts) = without_value (Lock s owner repo number opts)"
| "invoke p s (Unlock_op owner repo number) = without_value (Unlock s owner repo number)"
| "invoke p s (ListMilestones_op owner repo opts) =
     with_value Milestones (ListMilestones p s owner repo opts)"
| "invoke p s (GetMilestone_op owner repo number) =
     with_value Milestone_ptr (GetMilestone s owner repo number)"
| "invoke p s (CreateMilestone_op owner repo milestone) =
     with_value Milestone_ptr (CreateMilestone s owner repo milestone)"
| "invoke p s (EditMilestone_op owner repo number milestone) =
     with_value Milestone_ptr (EditMilestone s owner repo number milestone)"
| "invoke p s (DeleteMilestone_op owner repo number) =
     without_value (DeleteMilestone s owner repo number)"

text \<open>The returned entity or list is \<open>nil\<close> (a method without one returns none).\<close>

fun is_nil :: "returned \<Rightarrow> bool" where
  "is_nil (Issues v) = (v = None)"
| "is_nil (Issue_ptr v) = (v = None)"
| "is_nil (Milestones v) = (v = None)"
| "is_nil (Milestone_ptr v) = (v = None)"
| "is_nil no_value = True"

text \<open>
  Reading a list of calls: what was asked of \<open>NewRequest\<close> (method, path, body), the
  requests handed to \<open>Do\<close>, and the errors that \<open>addOptions\<close> and \<open>NewRequest\<close>
  returned.
\<close>

fun requested :: "call list \<Rightarrow> (string \<times> string \<times> body) list" where
  "requested [] = []"
| "requested (NewRequest_call m u b r # cs) = (m, u, b) # requested cs"
| "requested (c # cs) = requested cs"

fun sent :: "call list \<Rightarrow> Request list" where
  "sent [] = []"
| "sent (Do_call req # cs) = req # sent cs"
| "sent (c # cs) = sent cs"


text \<open>
  The spec's "issue-list and issue-get calls": \<open>List\<close>, \<open>ListByOrg\<close>, \<open>ListByRepo\<close>
  and \<open>Get\<close>.
\<close>

fun issue_list_or_get :: "operation \<Rightarrow> bool" where
  "issue_list_or_get (List_op all opts) = True"
| "issue_list_or_get (ListByOrg_op org opts) = True"
| "issue_list_or_get (ListByRepo_op owner repo opts) = True"
| "issue_list_or_get (Get_op owner repo number) = True"
| "issue_list_or_get op = False"

text \<open>
  The spec's endpoints, one per method: HTTP method, URL path, the query options for
  the list methods, and the body. \<open>build_request\<close> is the spec's request
  construction: encode the options into the path where there are any, then ask the
  client for the request.
\<close>

fun endpoint :: "operation \<Rightarrow> string \<times> string \<times> options option \<times> body" where
  "endpoint (List_op all opts) =
     (''GET'', (if all then ''issues'' else ''user/issues''),
      Some (IssueListOptions_ptr opts), nil_body)"
| "endpoint (ListByOrg_op org opts) =
     (''GET'', ''orgs/'' @ org @ ''/issues'', Some (IssueListOptions_ptr opts), nil_body)"
| "endpoint (ListByRepo_op owner repo opts) =
     (''GET'', ''repos/'' @ owner @ ''/'' @ repo @ ''/issues'',
      Some (IssueListByRepoOptions_ptr opts), nil_body)"
| "endpoint (Get_op owner repo number) =
     (''GET'', ''repos/'' @ owner @ ''/'' @ repo @ ''/issues/'' @ itoa number, None, nil_body)"
| "endpoint (Create_op owner repo issue) =
     (''POST'', ''repos/'' @ owner @ ''/'' @ repo @ ''/issues'', None, IssueRequest_body issue)"
| "endpoint (Edit_op owner repo number issue) =
     (''PATCH'', ''repos/'' @ owner @ ''/'' @ repo @ ''/issues/'' @ itoa number, None,
      IssueRequest_body issue)"
| "endpoint (RemoveMilestone_op owner repo issueNumber) =
     (''PATCH'', ''repos/'' @ owner @ ''/'' @ repo @ ''/issues/'' @ itoa issueNumber, None,
      milestone_patch_body (Some \<lparr> milestone_patch.Milestone = None \<rparr>))"
| "endpoint (Lock_op owner repo number opts) =
     (''PUT'', ''repos/'' @ owner @ ''/'' @ repo @ ''/issues/'' @ itoa number @ ''/lock'', None,
      LockIssueOptions_body opts)"
| "endpoint (Unlock_op owner repo number) =
     (''DELETE'', ''repos/'' @ owner @ ''/'' @ repo @ ''/issues/'' @ itoa number @ ''/lock'',
      None, nil_body)"
| "endpoint (ListMilestones_op owner repo opts) =
     (''GET'', ''repos/'' @ owner @ ''/'' @ repo @ ''/milestones'',
      Some (MilestoneListOptions_ptr opts), nil_body)"
| "endpoint (GetMilestone_op owner repo number) =
     (''GET'', ''repos/'' @ owner @ ''/'' @ repo @ ''/milestones/'' @ itoa number, None,
      nil_body)"
| "endpoint (CreateMilestone_op owner repo milestone) =
     (''POST'', ''repos/'' @ owner @ ''/'' @ repo @ ''/milestones'', None,
      Milestone_body milestone)"
| "endpoint (EditMilestone_op owner repo number milestone) =
     (''PATCH'', ''repos/'' @ owner @ ''/'' @ repo @ ''/milestones/'' @ itoa number, None,
      Milestone_body milestone)"
| "endpoint (DeleteMilestone_op owner repo number) =
     (''DELETE'', ''repos/'' @ owner @ ''/'' @ repo @ ''/milestones/'' @ itoa number, None,
      nil_body)"

definition build_request :: "package \<Rightarrow> IssuesService \<Rightarrow> operation \<Rightarrow> error + Request" where
  "build_request p s op =
     (case endpoint op of
        (m, u, None, b) \<Rightarrow> NewRequest (client s) m u b
      | (m, u, Some opts, b) \<Rightarrow>
          (case addOptions p u opts of
             Inl err \<Rightarrow> Inl err
           | Inr u' \<Rightarrow> NewRequest (client s) m u' b))"

text \<open>The structs a struct embeds, each with its fields.\<close>

fun embedded :: "qfield list \<Rightarrow> (string \<times> qfield list) list" where
  "embedded [] = []"
| "embedded (Embedded n fs # rest) = (n, fs) # embedded rest"
| "embedded (Field n t v # rest) = embedded rest"

subsection \<open>The query encoder\<close>

text \<open>
  Modelled from the spec: the query-string encoder that \<open>addOptions\<close> applies to an
  options record, which is not in this file. The spec: "query-option records map each
  non-empty field to a single URL query parameter; list-typed fields are serialized as
  comma-joined values; option records compose two shared fragments". A parameter is
  named by the field's \<open>url\<close> tag up to its first comma; an integer is written in
  decimal and a time as its RFC 3339 text; the fields of an embedded fragment are encoded
  where the fragment stands. The result lists the parameters as (name, value) pairs,
  before any escaping for the URL.
\<close>

definition tag_name :: "string \<Rightarrow> string" where
  "tag_name t = takeWhile (\<lambda>c. c \<noteq> CHR '','') t"

fun isEmptyValue :: "qvalue \<Rightarrow> bool" where
  "isEmptyValue (String_value s) = (s = [])"
| "isEmptyValue (Int_value i) = (i = 0)"
| "isEmptyValue (Strings_value xs) = (len xs = 0)"
| "isEmptyValue (Time_value t) = IsZero t"

fun valueString :: "qvalue \<Rightarrow> string" where
  "valueString (String_value s) = s"
| "valueString (Int_value i) = itoa i"
| "valueString (Strings_value xs) = Join (elems xs) '',''"
| "valueString (Time_value t) = RFC3339 t"

fun Values :: "qfield list \<Rightarrow> (string \<times> string) list" where
  "Values [] = []"
| "Values (Field n t v # fs) =
     (if isEmptyValue v then [] else [(tag_name t, valueString v)]) @ Values fs"
| "Values (Embedded n efs # fs) = Values efs @ Values fs"

text \<open>\<open>url.Values.Get\<close>-like reading: the values recorded under a name, in order.\<close>

definition values_of :: "string \<Rightarrow> (string \<times> string) list \<Rightarrow> string list" where
  "values_of k vs = map snd (filter (\<lambda>kv. fst kv = k) vs)"

subsection \<open>Example collaborators\<close>

definition example_package :: package where
  "example_package =
     \<lparr> mediaTypeReactionsPreview = ''application/vnd.github.squirrel-girl-preview'',
       addOptions = (\<lambda>u opts. Inr u) \<rparr>"


definition example_NewRequest :: "string \<Rightarrow> string \<Rightarrow> body \<Rightarrow> error + Request" where
  "example_NewRequest m u b = Inr \<lparr> Method = m, URL = u, Header = Map.empty \<rparr>"

definition example_Issue :: Issue where
  "example_Issue = new_Issue\<lparr> Issue.Number := Some 1 \<rparr>"

definition example_Milestone :: Milestone where
  "example_Milestone = new_Milestone\<lparr> Milestone.Number := Some 1 \<rparr>"

text \<open>A client whose calls succeed.\<close>

definition example_client :: Client where
  "example_client =
     \<lparr> NewRequest = example_NewRequest,
       Do_Issues = (\<lambda>req v. (Some \<lparr> StatusCode = 200 \<rparr>, None, Some [Some example_Issue])),
       Do_Issue = (\<lambda>req v. (Some \<lparr> StatusCode = 200 \<rparr>, None, example_Issue)),
       Do_Milestones =
         (\<lambda>req v. (Some \<lparr> StatusCode = 200 \<rparr>, None, Some [Some example_Milestone])),
       Do_Milestone = (\<lambda>req v. (Some \<lparr> StatusCode = 200 \<rparr>, None, example_Milestone)),
       Do_nil = (\<lambda>req. (Some \<lparr> StatusCode = 204 \<rparr>, None)) \<rparr>"

text \<open>A client whose \<open>Do\<close> fails after it has decoded something.\<close>

definition erring_client :: Client where
  "erring_client =
     \<lparr> NewRequest = example_NewRequest,
       Do_Issues =
         (\<lambda>req v. (Some \<lparr> StatusCode = 500 \<rparr>, Some (Error ''500''), Some [Some example_Issue])),
       Do_Issue = (\<lambda>req v. (Some \<lparr> StatusCode = 500 \<rparr>, Some (Error ''500''), example_Issue)),
       Do_Milestones =
         (\<lambda>req v. (Some \<lparr> StatusCode = 500 \<rparr>, Some (Error ''500''),
                    Some [Some example_Milestone])),
       Do_Milestone =
         (\<lambda>req v. (Some \<lparr> StatusCode = 500 \<rparr>, Some (Error ''500''), example_Milestone)),
       Do_nil = (\<lambda>req. (Some \<lparr> StatusCode = 500 \<rparr>, Some (Error ''500''))) \<rparr>"


text \<open>Options for \<open>ListByRepo\<close> with two labels and both pagination fragments.\<close>

definition example_IssueListByRepoOptions :: IssueListByRepoOptions where
  "example_IssueListByRepoOptions =
     \<lparr> IssueListByRepoOptions.Milestone = [], State = ''open'', Assignee = [], Creator = [],
       Mentioned = [], Labels = Some [''bug'', ''p1''], Sort = [], Direction = [],
       Since = \<lparr> IsZero = True, RFC3339 = ''0001-01-01T00:00:00Z'' \<rparr>,
       ListCursorOptions = [Field ''Page'' ''page,omitempty'' (String_value [])],
       ListOptions = [Field ''Page'' ''page,omitempty'' (Int_value 2)] \<rparr>"

text \<open>Folding of ASCII names, and decoders that read the JSON kinds they expect.\<close>

definition ascii_upper :: "string \<Rightarrow> string" where
  "ascii_upper s =
     map (\<lambda>c. case map_of (zip ''abcdefghijklmnopqrstuvwxyz'' ''ABCDEFGHIJKLMNOPQRSTUVWXYZ'') c of
              None \<Rightarrow> c
            | Some u \<Rightarrow> u) s"

definition example_decoders :: decoders where
  "example_decoders =
     \<lparr> dec_int64 = (\<lambda>v x. case v of JNumber n \<Rightarrow> n | _ \<Rightarrow> x),
       dec_int = (\<lambda>v x. case v of JNumber n \<Rightarrow> n | _ \<Rightarrow> x),
       dec_string = (\<lambda>v x. case v of JString s \<Rightarrow> s | _ \<Rightarrow> x),
       dec_bool = (\<lambda>v x. case v of JBool b \<Rightarrow> b | _ \<Rightarrow> x),
       dec_Milestone = (\<lambda>v m. m),
       dec_PullRequestLinks = (\<lambda>v l. l),
       dec_IssueType = (\<lambda>v t. t),
       store_User = (\<lambda>v p. p),
       store_Repository = (\<lambda>v p. p),
       store_Reactions = (\<lambda>v p. p),
       store_Timestamp = (\<lambda>v p. p),
       store_Labels = (\<lambda>v p. p),
       store_Users = (\<lambda>v p. p),
       store_TextMatches = (\<lambda>v p. p) \<rparr>"

section \<open>Properties\<close>

subsection \<open>Paths and decimal numbers\<close>

lemma itoa_examples:
  "itoa 0 = ''0'' \<and> itoa 7 = ''7'' \<and> itoa 42 = ''42'' \<and> itoa (- 15) = ''-15''"
  by (simp add: itoa_def digits.simps)

lemma digit_value_nth: "d < 10 \<Longrightarrow> digit_value (''0123456789'' ! d) = d"
proof -
  assume "d < 10"
  then have "d = 0 \<or> d = 1 \<or> d = 2 \<or> d = 3 \<or> d = 4 \<or> d = 5 \<or> d = 6 \<or> d = 7 \<or> d = 8 \<or> d = 9"
    by arith
  then show ?thesis by (elim disjE) (simp_all add: digit_value_def)
qed

lemma decimal_value_snoc:
  "decimal_value (s @ [c]) = 10 * decimal_value s + digit_value c"
  by (simp add: decimal_value_def)

text \<open>\<open>digits\<close> writes a number as the decimal numeral that denotes it.\<close>

lemma decimal_value_digits: "decimal_value (digits n) = n"
proof (induction n rule: digits.induct)
  case (1 n)
  show ?case
  proof (cases "n < 10")
    case True
    then show ?thesis
      by (subst digits.simps) (simp add: decimal_value_def digit_value_nth)
  next
    case False
    then have "decimal_value (digits (n div 10)) = n div 10" using 1 by simp
    with False show ?thesis
      by (subst digits.simps) (simp add: decimal_value_snoc digit_value_nth)
  qed
qed

lemma issue_path_example:
  "Sprintf [Lit ''repos/'', Verb_v, Lit ''/'', Verb_v, Lit ''/issues/'', Verb_d]
     [String_arg ''o'', String_arg ''r'', Int_arg 1] = ''repos/o/r/issues/1''"
  by (simp add: itoa_def digits.simps)

lemma Sprintf_flags_example:
  "Sprintf [Lit ''a/'', Verb_d, Lit ''/'', Verb_v] [String_arg ''x''] =
     ''a/%!d(string=x)/%!v(MISSING)''"
  by simp

subsection \<open>Reading the calls of a wrapped method\<close>

lemma calls_with_value: "snd (with_value f r) = snd r"
  by (simp add: with_value_def split: prod.splits)

lemma calls_without_value: "snd (without_value r) = snd r"
  by (simp add: without_value_def split: prod.splits)

lemma List_listIssues:
  "List p s all opts = listIssues p s (if all then ''issues'' else ''user/issues'') opts"
  by (simp add: List_def)

lemma ListByOrg_listIssues:
  "ListByOrg p s org opts = listIssues p s (''orgs/'' @ org @ ''/issues'') opts"
  by (simp add: ListByOrg_def)

lemmas method_defs = ListByRepo_def Get_def Create_def Edit_def RemoveMilestone_def
  Lock_def Unlock_def ListMilestones_def GetMilestone_def CreateMilestone_def
  EditMilestone_def DeleteMilestone_def

subsection \<open>RemoveMilestone\<close>

text \<open>C1. For every owner, repo and issue number, \<open>RemoveMilestone\<close> asks for one
  request: a PATCH to \<open>repos/{owner}/{repo}/issues/{issueNumber}\<close> whose body is the
  struct with a \<open>nil\<close> milestone; the request it hands to \<open>Do\<close> is the one it got;
  and that body encodes as the JSON object with the single key \<open>milestone\<close> and the
  value \<open>null\<close>: the key is present.\<close>

theorem RemoveMilestone_request:
  "requested (snd (RemoveMilestone s owner repo issueNumber)) =
     [(''PATCH'', ''repos/'' @ owner @ ''/'' @ repo @ ''/issues/'' @ itoa issueNumber,
       milestone_patch_body (Some \<lparr> milestone_patch.Milestone = None \<rparr>))]
   \<and> sent (snd (RemoveMilestone s owner repo issueNumber)) =
     (case NewRequest (client s) ''PATCH''
             (''repos/'' @ owner @ ''/'' @ repo @ ''/issues/'' @ itoa issueNumber)
             (milestone_patch_body (Some \<lparr> milestone_patch.Milestone = None \<rparr>)) of
        Inl err \<Rightarrow> []
      | Inr req \<Rightarrow> [req])
   \<and> marshal_milestone_patch marshal_Milestone \<lparr> milestone_patch.Milestone = None \<rparr> =
       JObject [(''milestone'', JNull)]"
  by (simp add: RemoveMilestone_def marshal_milestone_patch_def Let_def
        split: sum.splits prod.splits option.splits)

subsection \<open>Get\<close>

text \<open>C4. For every owner, repo and number, \<open>Get\<close> asks for one request, a GET of
  \<open>repos/{owner}/{repo}/issues/{number}\<close> without body, and hands it to \<open>Do\<close> with
  the \<open>Accept\<close> header set to the reactions preview media type.\<close>

theorem Get_request:
  "requested (snd (Get p s owner repo number)) =
     [(''GET'', ''repos/'' @ owner @ ''/'' @ repo @ ''/issues/'' @ itoa number, nil_body)]
   \<and> sent (snd (Get p s owner repo number)) =
     (case NewRequest (client s) ''GET''
             (''repos/'' @ owner @ ''/'' @ repo @ ''/issues/'' @ itoa number) nil_body of
        Inl err \<Rightarrow> []
      | Inr req \<Rightarrow>
          [req\<lparr> Header := (Header req)(''Accept'' \<mapsto> [mediaTypeReactionsPreview p]) \<rparr>])"
  by (simp add: Get_def Header_Set_def Let_def
        split: sum.splits prod.splits option.splits)

subsection \<open>List\<close>

text \<open>C5. \<open>List\<close> chooses its path from the boolean alone and is \<open>listIssues\<close> on
  that path. Where \<open>addOptions\<close> returns the path as it is for \<open>nil\<close> options,
  \<open>List(true, nil)\<close> asks for a GET of \<open>issues\<close> and \<open>List(false, nil)\<close> for a GET
  of \<open>user/issues\<close>, both without body, and each hands the request it got to \<open>Do\<close>
  with the \<open>Accept\<close> header set to the reactions preview media type.\<close>

theorem List_endpoint:
  assumes nil_opts: "\<And>u. addOptions p u (IssueListOptions_ptr None) = Inr u"
  shows "requested (snd (List p s True None)) = [(''GET'', ''issues'', nil_body)]
       \<and> requested (snd (List p s False None)) = [(''GET'', ''user/issues'', nil_body)]
       \<and> sent (snd (List p s True None)) =
           (case NewRequest (client s) ''GET'' ''issues'' nil_body of
              Inl err \<Rightarrow> []
            | Inr req \<Rightarrow>
                [req\<lparr> Header := (Header req)(''Accept'' \<mapsto> [mediaTypeReactionsPreview p]) \<rparr>])
       \<and> sent (snd (List p s False None)) =
           (case NewRequest (client s) ''GET'' ''user/issues'' nil_body of
              Inl err \<Rightarrow> []
            | Inr req \<Rightarrow>
                [req\<lparr> Header := (Header req)(''Accept'' \<mapsto> [mediaTypeReactionsPreview p]) \<rparr>])
       \<and> List p s all opts = listIssues p s (if all then ''issues'' else ''user/issues'') opts"
  by (simp add: List_def listIssues_def nil_opts Header_Set_def Let_def
        split: sum.splits prod.splits option.splits)

theorem List_endpoint_witness:
  "requested (snd (List example_package \<lparr> client = example_client \<rparr> True None)) =
     [(''GET'', ''issues'', nil_body)]
   \<and> requested (snd (List example_package \<lparr> client = example_client \<rparr> False None)) =
     [(''GET'', ''user/issues'', nil_body)]
   \<and> sent (snd (List example_package \<lparr> client = example_client \<rparr> True None)) =
     [\<lparr> Method = ''GET'', URL = ''issues'',
        Header = [''Accept'' \<mapsto> [''application/vnd.github.squirrel-girl-preview'']] \<rparr>]
   \<and> sent (snd (List example_package \<lparr> client = example_client \<rparr> False None)) =
     [\<lparr> Method = ''GET'', URL = ''user/issues'',
        Header = [''Accept'' \<mapsto> [''application/vnd.github.squirrel-girl-preview'']] \<rparr>]
   \<and> addOptions example_package ''issues'' (IssueListOptions_ptr None) = Inr ''issues''"
proof -
  let ?s = "\<lparr> client = example_client \<rparr>"
  have h: "\<And>u. addOptions example_package u (IssueListOptions_ptr None) = Inr u"
    by (simp add: example_package_def)
  note w = List_endpoint [OF h, of ?s True None]
  have n: "NewRequest (client ?s) ''GET'' ''issues'' nil_body =
             Inr \<lparr> Method = ''GET'', URL = ''issues'', Header = Map.empty \<rparr>"
          "NewRequest (client ?s) ''GET'' ''user/issues'' nil_body =
             Inr \<lparr> Method = ''GET'', URL = ''user/issues'', Header = Map.empty \<rparr>"
    by (simp_all add: example_client_def example_NewRequest_def)
  have m: "mediaTypeReactionsPreview example_package =
             ''application/vnd.github.squirrel-girl-preview''"
    by (simp add: example_package_def)
  have r1: "requested (snd (List example_package ?s True None)) =
              [(''GET'', ''issues'', nil_body)]"
    using w by blast
  have r2: "requested (snd (List example_package ?s False None)) =
              [(''GET'', ''user/issues'', nil_body)]"
    using w by blast
  have s1: "sent (snd (List example_package ?s True None)) =
     [\<lparr> Method = ''GET'', URL = ''issues'',
        Header = [''Accept'' \<mapsto> [''application/vnd.github.squirrel-girl-preview'']] \<rparr>]"
    using w [THEN conjunct2, THEN conjunct2, THEN conjunct1] unfolding n m by simp
  have s2: "sent (snd (List example_package ?s False None)) =
     [\<lparr> Method = ''GET'', URL = ''user/issues'',
        Header = [''Accept'' \<mapsto> [''application/vnd.github.squirrel-girl-preview'']] \<rparr>]"
    using w [THEN conjunct2, THEN conjunct2, THEN conjunct2, THEN conjunct1]
    unfolding n m by simp
  show ?thesis using r1 r2 s1 s2 h by blast
qed

subsection \<open>Lock\<close>

text \<open>C6, as stated, fails: with no options \<open>Lock\<close> does not ask for a request
  without body. The body it passes is its \<open>nil\<close> options pointer, a typed \<open>nil\<close>
  that \<open>encoding/json\<close> writes as \<open>null\<close>, and not the untyped \<open>nil\<close> that
  \<open>Unlock\<close> passes.\<close>

theorem Lock_nil_options_body:
  "requested (snd (Lock \<lparr> client = example_client \<rparr> ''o'' ''r'' 1 None)) \<noteq>
     [(''PUT'', ''repos/o/r/issues/1/lock'', nil_body)]
   \<and> requested (snd (Lock \<lparr> client = example_client \<rparr> ''o'' ''r'' 1 None)) =
     [(''PUT'', ''repos/o/r/issues/1/lock'', LockIssueOptions_body None)]
   \<and> marshal_LockIssueOptions_ptr None = JNull
   \<and> requested (snd (Unlock \<lparr> client = example_client \<rparr> ''o'' ''r'' 1)) =
     [(''DELETE'', ''repos/o/r/issues/1/lock'', nil_body)]"
  by (simp add: Lock_def Unlock_def marshal_LockIssueOptions_ptr_def itoa_def digits.simps
        Let_def split: sum.splits)

text \<open>C6, amended. For every owner, repo, number and options pointer, \<open>Lock\<close> asks
  for one request, a PUT to \<open>repos/{owner}/{repo}/issues/{number}/lock\<close> whose body is
  the options pointer it was given, and hands the request to \<open>Do\<close> as it got it.
  Options with the lock reason \<open>spam\<close> are written as \<open>{"lock_reason":"spam"}\<close>;
  with no options the body is the \<open>nil\<close> pointer, written as \<open>null\<close>; in no case is
  the body absent.\<close>

theorem Lock_request:
  "requested (snd (Lock s owner repo number opts)) =
     [(''PUT'', ''repos/'' @ owner @ ''/'' @ repo @ ''/issues/'' @ itoa number @ ''/lock'',
       LockIssueOptions_body opts)]
   \<and> sent (snd (Lock s owner repo number opts)) =
     (case NewRequest (client s) ''PUT''
             (''repos/'' @ owner @ ''/'' @ repo @ ''/issues/'' @ itoa number @ ''/lock'')
             (LockIssueOptions_body opts) of
        Inl err \<Rightarrow> []
      | Inr req \<Rightarrow> [req])
   \<and> marshal_LockIssueOptions_ptr (Some \<lparr> LockReason = ''spam'' \<rparr>) =
       JObject [(''lock_reason'', JString ''spam'')]
   \<and> marshal_LockIssueOptions_ptr None = JNull
   \<and> LockIssueOptions_body opts \<noteq> nil_body"
  by (simp add: Lock_def marshal_LockIssueOptions_def marshal_LockIssueOptions_ptr_def Let_def
        split: sum.splits prod.splits option.splits)

subsection \<open>The preview header\<close>

lemma listIssues_sends:
  "sent (snd (listIssues p s u opts)) =
     (case addOptions p u (IssueListOptions_ptr opts) of
        Inl err \<Rightarrow> []
      | Inr u' \<Rightarrow>
          (case NewRequest (client s) ''GET'' u' nil_body of
             Inl err \<Rightarrow> []
           | Inr req \<Rightarrow>
               [req\<lparr> Header := (Header req)(''Accept'' \<mapsto> [mediaTypeReactionsPreview p]) \<rparr>]))"
  by (simp add: listIssues_def Header_Set_def Let_def
        split: sum.splits prod.splits option.splits)

text \<open>C3. Every method hands to \<open>Do\<close> exactly the request that was built for its
  endpoint, and nothing when building it failed: \<open>List\<close>, \<open>ListByOrg\<close>,
  \<open>ListByRepo\<close> and \<open>Get\<close> hand it on with the \<open>Accept\<close> header set to the
  reactions preview media type, and every other method (\<open>Create\<close>, \<open>Edit\<close>,
  \<open>RemoveMilestone\<close>, \<open>Lock\<close>, \<open>Unlock\<close> and the milestone methods) hands it on
  unchanged.\<close>

theorem preview_header:
  "sent (snd (invoke p s op)) =
     (case build_request p s op of
        Inl err \<Rightarrow> []
      | Inr req \<Rightarrow>
          [if issue_list_or_get op
           then req\<lparr> Header := (Header req)(''Accept'' \<mapsto> [mediaTypeReactionsPreview p]) \<rparr>
           else req])"
proof (cases op)
  case (List_op all opts)
  then show ?thesis
    by (simp add: calls_with_value List_listIssues listIssues_sends build_request_def
          split: sum.splits)
next
  case (ListByOrg_op org opts)
  then show ?thesis
    by (simp add: calls_with_value ListByOrg_listIssues listIssues_sends build_request_def
          split: sum.splits)
qed (simp_all add: calls_with_value calls_without_value method_defs build_request_def
       Header_Set_def Let_def split: sum.splits prod.splits option.splits)

theorem preview_header_witness:
  "sent (snd (invoke example_package \<lparr> client = example_client \<rparr> (List_op True None))) =
     [\<lparr> Method = ''GET'', URL = ''issues'',
        Header = [''Accept'' \<mapsto> [''application/vnd.github.squirrel-girl-preview'']] \<rparr>]
   \<and> sent (snd (invoke example_package \<lparr> client = example_client \<rparr>
                  (ListByOrg_op ''g'' None))) =
     [\<lparr> Method = ''GET'', URL = ''orgs/g/issues'',
        Header = [''Accept'' \<mapsto> [''application/vnd.github.squirrel-girl-preview'']] \<rparr>]
   \<and> sent (snd (invoke example_package \<lparr> client = example_client \<rparr>
                  (ListByRepo_op ''o'' ''r'' None))) =
     [\<lparr> Method = ''GET'', URL = ''repos/o/r/issues'',
        Header = [''Accept'' \<mapsto> [''application/vnd.github.squirrel-girl-preview'']] \<rparr>]
   \<and> sent (snd (invoke example_package \<lparr> client = example_client \<rparr> (Get_op ''o'' ''r'' 1))) =
     [\<lparr> Method = ''GET'', URL = ''repos/o/r/issues/1'',
        Header = [''Accept'' \<mapsto> [''application/vnd.github.squirrel-girl-preview'']] \<rparr>]
   \<and> sent (snd (invoke example_package \<lparr> client = example_client \<rparr>
                  (ListMilestones_op ''o'' ''r'' None))) =
     [\<lparr> Method = ''GET'', URL = ''repos/o/r/milestones'', Header = Map.empty \<rparr>]
   \<and> sent (snd (invoke example_package \<lparr> client = example_client \<rparr>
                  (Create_op ''o'' ''r'' None))) =
     [\<lparr> Method = ''POST'', URL = ''repos/o/r/issues'', Header = Map.empty \<rparr>]"
proof -
  let ?s = "\<lparr> client = example_client \<rparr>"
  have b: "build_request example_package ?s (List_op True None) =
             Inr \<lparr> Method = ''GET'', URL = ''issues'', Header = Map.empty \<rparr>"
          "build_request example_package ?s (ListByOrg_op ''g'' None) =
             Inr \<lparr> Method = ''GET'', URL = ''orgs/g/issues'', Header = Map.empty \<rparr>"
          "build_request example_package ?s (ListByRepo_op ''o'' ''r'' None) =
             Inr \<lparr> Method = ''GET'', URL = ''repos/o/r/issues'', Header = Map.empty \<rparr>"
          "build_request example_package ?s (Get_op ''o'' ''r'' 1) =
             Inr \<lparr> Method = ''GET'', URL = ''repos/o/r/issues/1'', Header = Map.empty \<rparr>"
          "build_request example_package ?s (ListMilestones_op ''o'' ''r'' None) =
             Inr \<lparr> Method = ''GET'', URL = ''repos/o/r/milestones'', Header = Map.empty \<rparr>"
          "build_request example_package ?s (Create_op ''o'' ''r'' None) =
             Inr \<lparr> Method = ''POST'', URL = ''repos/o/r/issues'', Header = Map.empty \<rparr>"
    by (simp_all add: build_request_def example_package_def example_client_def
          example_NewRequest_def itoa_def digits.simps)
  have m: "mediaTypeReactionsPreview example_package =
             ''application/vnd.github.squirrel-girl-preview''"
    by (simp add: example_package_def)
  show ?thesis
    unfolding preview_header b m by simp
qed

subsection \<open>Errors\<close>




lemma listIssues_error:
  "listIssues p s u opts = ((v, resp, Some e), cs) \<Longrightarrow> v = None"
  by (auto simp: listIssues_def Let_def split: sum.splits prod.splits option.splits)

text \<open>C10. For every method: when it returns an error, the entity or list it returns
  is \<open>nil\<close>, also when \<open>Do\<close> had decoded something before it failed.\<close>

theorem error_nil_value:
  assumes "invoke p s op = ((v, resp, Some e), cs)"
  shows "is_nil v"
proof (cases op)
  case (List_op all opts)
  then show ?thesis using assms listIssues_error [of p s _ opts _ resp e cs]
    by (auto simp: with_value_def List_listIssues split: prod.splits)
next
  case (ListByOrg_op org opts)
  then show ?thesis using assms listIssues_error [of p s _ opts _ resp e cs]
    by (auto simp: with_value_def ListByOrg_listIssues split: prod.splits)
qed (use assms in \<open>auto simp: with_value_def without_value_def method_defs Let_def
       split: sum.splits prod.splits option.splits\<close>)

theorem error_nil_value_witness:
  "invoke example_package \<lparr> client = erring_client \<rparr> (Get_op ''o'' ''r'' 1) =
     ((Issue_ptr None, Some \<lparr> StatusCode = 500 \<rparr>, Some (Error ''500'')),
      [NewRequest_call ''GET'' ''repos/o/r/issues/1'' nil_body
         (Inr \<lparr> Method = ''GET'', URL = ''repos/o/r/issues/1'', Header = Map.empty \<rparr>),
       Do_call \<lparr> Method = ''GET'', URL = ''repos/o/r/issues/1'',
         Header = [''Accept'' \<mapsto> [''application/vnd.github.squirrel-girl-preview'']] \<rparr>])
   \<and> is_nil (Issue_ptr None)
   \<and> Do_Issue erring_client
        \<lparr> Method = ''GET'', URL = ''repos/o/r/issues/1'',
          Header = [''Accept'' \<mapsto> [''application/vnd.github.squirrel-girl-preview'']] \<rparr>
        new_Issue = (Some \<lparr> StatusCode = 500 \<rparr>, Some (Error ''500''), example_Issue)"
proof -
  have a: "invoke example_package \<lparr> client = erring_client \<rparr> (Get_op ''o'' ''r'' 1) =
     ((Issue_ptr None, Some \<lparr> StatusCode = 500 \<rparr>, Some (Error ''500'')),
      [NewRequest_call ''GET'' ''repos/o/r/issues/1'' nil_body
         (Inr \<lparr> Method = ''GET'', URL = ''repos/o/r/issues/1'', Header = Map.empty \<rparr>),
       Do_call \<lparr> Method = ''GET'', URL = ''repos/o/r/issues/1'',
         Header = [''Accept'' \<mapsto> [''application/vnd.github.squirrel-girl-preview'']] \<rparr>])"
    by (simp add: with_value_def Get_def erring_client_def example_package_def
          example_NewRequest_def Header_Set_def itoa_def digits.simps Let_def)
  show ?thesis using error_nil_value [OF a] a by (simp add: erring_client_def)
qed

subsection \<open>Encoding the list options\<close>

lemma values_of_append: "values_of k (xs @ ys) = values_of k xs @ values_of k ys"
  by (simp add: values_of_def)

lemma values_of_Nil: "values_of k [] = []"
  by (simp add: values_of_def)

lemma values_of_Cons:
  "values_of k ((k', v) # xs) = (if k' = k then v # values_of k xs else values_of k xs)"
  by (simp add: values_of_def)

text \<open>C7. For all \<open>IssueListByRepoOptions\<close> whose pagination fragments have no
  parameter named \<open>labels\<close>: the encoding has no \<open>labels\<close> parameter when the list
  of labels is empty and otherwise the single one that joins the labels with commas; for
  the labels \<open>bug\<close> and \<open>p1\<close> it is \<open>labels=bug,p1\<close>.\<close>

theorem labels_comma_joined:
  assumes "values_of ''labels'' (Values (IssueListByRepoOptions.ListCursorOptions opts)) = []"
    and "values_of ''labels'' (Values (IssueListByRepoOptions.ListOptions opts)) = []"
  shows "values_of ''labels'' (Values (fields_IssueListByRepoOptions opts)) =
           (if len (IssueListByRepoOptions.Labels opts) = 0 then []
            else [Join (elems (IssueListByRepoOptions.Labels opts)) '',''])
       \<and> (IssueListByRepoOptions.Labels opts = Some [''bug'', ''p1''] \<longrightarrow>
            values_of ''labels'' (Values (fields_IssueListByRepoOptions opts)) = [''bug,p1''])"
  using assms
  by (simp add: fields_IssueListByRepoOptions_def values_of_append values_of_Cons
        values_of_Nil tag_name_def len_def elems_def)

theorem labels_comma_joined_witness:
  "values_of ''labels'' (Values (fields_IssueListByRepoOptions example_IssueListByRepoOptions))
     = [''bug,p1'']
   \<and> Values (fields_IssueListByRepoOptions example_IssueListByRepoOptions) =
       [(''state'', ''open''), (''labels'', ''bug,p1''), (''page'', ''2'')]"
proof -
  have c: "values_of ''labels''
             (Values (IssueListByRepoOptions.ListCursorOptions example_IssueListByRepoOptions)) = []"
    by (simp add: example_IssueListByRepoOptions_def values_of_def)
  have l: "values_of ''labels''
             (Values (IssueListByRepoOptions.ListOptions example_IssueListByRepoOptions)) = []"
    by (simp add: example_IssueListByRepoOptions_def values_of_def tag_name_def)
  have v: "Values (fields_IssueListByRepoOptions example_IssueListByRepoOptions) =
       [(''state'', ''open''), (''labels'', ''bug,p1''), (''page'', ''2'')]"
    by (simp add: example_IssueListByRepoOptions_def fields_IssueListByRepoOptions_def
          tag_name_def len_def elems_def itoa_def digits.simps)
  have lab: "IssueListByRepoOptions.Labels example_IssueListByRepoOptions = Some [''bug'', ''p1'']"
    by (simp add: example_IssueListByRepoOptions_def)
  have w: "values_of ''labels''
             (Values (fields_IssueListByRepoOptions example_IssueListByRepoOptions)) = [''bug,p1'']"
    using labels_comma_joined [OF c l] lab by blast
  show ?thesis using w v by blast
qed

text \<open>The encoder passes on every parameter of an embedded fragment.\<close>

lemma fragments_encoded:
  "set (Values (IssueListOptions.ListCursorOptions a))
     \<union> set (Values (IssueListOptions.ListOptions a))
     \<subseteq> set (Values (fields_IssueListOptions a))"
  "set (Values (IssueListByRepoOptions.ListCursorOptions b))
     \<union> set (Values (IssueListByRepoOptions.ListOptions b))
     \<subseteq> set (Values (fields_IssueListByRepoOptions b))"
  "set (Values (MilestoneListOptions.ListOptions c))
     \<subseteq> set (Values (fields_MilestoneListOptions c))"
  by (simp_all add: fields_IssueListOptions_def fields_IssueListByRepoOptions_def
        fields_MilestoneListOptions_def split del: if_split) blast+

subsection \<open>The pagination fragments\<close>

text \<open>C2, as stated, fails: a \<open>MilestoneListOptions\<close> embeds \<open>ListOptions\<close> and
  no \<open>ListCursorOptions\<close>.\<close>

theorem MilestoneListOptions_no_cursor:
  "map fst (embedded (fields_MilestoneListOptions
      \<lparr> MilestoneListOptions.State = [], Sort = [], Direction = [], ListOptions = [] \<rparr>)) =
     [''ListOptions'']
   \<and> ''ListCursorOptions'' \<notin> set (map fst (embedded (fields_MilestoneListOptions
      \<lparr> MilestoneListOptions.State = [], Sort = [], Direction = [], ListOptions = [] \<rparr>)))"
  by (simp add: fields_MilestoneListOptions_def)

text \<open>C2, amended. \<open>IssueListOptions\<close> and \<open>IssueListByRepoOptions\<close> embed both
  the cursor pagination fragment and the offset pagination fragment, in this order;
  \<open>MilestoneListOptions\<close> embeds the offset pagination fragment alone.\<close>

theorem pagination_fragments:
  "embedded (fields_IssueListOptions a) =
     [(''ListCursorOptions'', IssueListOptions.ListCursorOptions a),
      (''ListOptions'', IssueListOptions.ListOptions a)]
   \<and> embedded (fields_IssueListByRepoOptions b) =
     [(''ListCursorOptions'', IssueListByRepoOptions.ListCursorOptions b),
      (''ListOptions'', IssueListByRepoOptions.ListOptions b)]
   \<and> embedded (fields_MilestoneListOptions c) =
     [(''ListOptions'', MilestoneListOptions.ListOptions c)]"
  by (simp add: fields_IssueListOptions_def fields_IssueListByRepoOptions_def
        fields_MilestoneListOptions_def)

subsection \<open>Pull requests\<close>

lemma store_other:
  "t \<noteq> ''pull_request'' \<Longrightarrow>
   Issue.PullRequestLinks (store_Issue_field D t v i) = Issue.PullRequestLinks i"
  by (simp add: store_Issue_field_def)

lemma store_pull_request:
  "(Issue.PullRequestLinks (store_Issue_field D ''pull_request'' v i) \<noteq> None) = (v \<noteq> JNull)"
  by (simp add: store_Issue_field_def store_ptr_def)

lemma decode_members_links:
  "(Issue.PullRequestLinks (decode_members D foldName ms i) \<noteq> None) =
     (case pull_request_values foldName ms of
        [] \<Rightarrow> Issue.PullRequestLinks i \<noteq> None
      | v # vs \<Rightarrow> last (v # vs) \<noteq> JNull)"
proof (induction ms arbitrary: i)
  case Nil
  show ?case by (simp add: pull_request_values_def)
next
  case (Cons m ms)
  obtain n v where m: "m = (n, v)" by (cases m)
  show ?case
  proof (cases "field_for foldName Issue_tags n = Some ''pull_request''")
    case True
    then show ?thesis
      using Cons.IH [of "store_Issue_field D ''pull_request'' v i"] store_pull_request [of D v i]
      by (simp add: m pull_request_values_def split: list.splits)
  next
    case False
    define i' where "i' = (case field_for foldName Issue_tags n of None \<Rightarrow> i
                            | Some t \<Rightarrow> store_Issue_field D t v i)"
    have same: "Issue.PullRequestLinks i' = Issue.PullRequestLinks i"
      using False by (auto simp: i'_def store_other split: option.splits)
    have step: "decode_members D foldName (m # ms) i = decode_members D foldName ms i'"
      by (simp add: m i'_def)
    have vals: "pull_request_values foldName (m # ms) = pull_request_values foldName ms"
      using False by (simp add: m pull_request_values_def)
    show ?thesis
      unfolding step vals using Cons.IH [of i'] same by (simp split: list.splits)
  qed
qed

lemma find_exact_pull_request:
  "find (\<lambda>t. t = ''pull_request'') Issue_tags = Some ''pull_request''"
  by (simp add: Issue_tags_def)

lemma field_for_pull_request:
  assumes "foldName n = foldName ''pull_request'' \<longrightarrow> n = ''pull_request''"
  shows "(field_for foldName Issue_tags n = Some ''pull_request'') = (n = ''pull_request'')"
proof (cases "n = ''pull_request''")
  case True
  then show ?thesis by (simp add: field_for_def find_exact_pull_request)
next
  case False
  have "field_for foldName Issue_tags n \<noteq> Some ''pull_request''"
  proof
    assume a: "field_for foldName Issue_tags n = Some ''pull_request''"
    show False
    proof (cases "find (\<lambda>t. t = n) Issue_tags")
      case None
      with a have "find (\<lambda>t. foldName t = foldName n) Issue_tags = Some ''pull_request''"
        by (simp add: field_for_def)
      then have "foldName ''pull_request'' = foldName n"
        by (auto simp: find_Some_iff)
      with assms False show False by simp
    next
      case (Some t)
      then have "t = n" by (auto simp: find_Some_iff)
      with Some a False show False by (simp add: field_for_def)
    qed
  qed
  with False show ?thesis by simp
qed

lemma values_distinct:
  "distinct (map fst ms) \<Longrightarrow>
   map snd (filter (\<lambda>m. fst m = k) ms) = (case map_of ms k of None \<Rightarrow> [] | Some v \<Rightarrow> [v])"
proof (induction ms)
  case Nil
  show ?case by simp
next
  case (Cons m ms)
  obtain n v where m: "m = (n, v)" by (cases m)
  show ?case
  proof (cases "n = k")
    case True
    with Cons.prems m have "k \<notin> fst ` set ms" by auto
    then have "filter (\<lambda>m. fst m = k) ms = []" by (auto simp: filter_empty_conv)
    with True m show ?thesis by simp
  next
    case False
    with Cons m show ?thesis by simp
  qed
qed

text \<open>C9. An issue reports itself as a pull request exactly when its
  \<open>PullRequestLinks\<close> field is not \<open>nil\<close>. For an \<open>Issue\<close> decoded from a JSON
  object into a fresh \<open>Issue\<close>: it reports itself as a pull request exactly when the
  last member that goes to the field tagged \<open>pull_request\<close> is not \<open>null\<close>; so, for
  an object whose member names are distinct and are no case variants of
  \<open>pull_request\<close>, exactly when the object has a member \<open>pull_request\<close> that is not
  \<open>null\<close>.\<close>

theorem IsPullRequest_decoded:
  "IsPullRequest i = (\<exists>l. Issue.PullRequestLinks i = Some l)
   \<and> IsPullRequest (Unmarshal_Issue D foldName (JObject ms) new_Issue) =
       (case pull_request_values foldName ms of
          [] \<Rightarrow> False
        | v # vs \<Rightarrow> last (v # vs) \<noteq> JNull)
   \<and> (distinct (map fst ms)
        \<and> (\<forall>n \<in> fst ` set ms. foldName n = foldName ''pull_request'' \<longrightarrow> n = ''pull_request'')
       \<longrightarrow> IsPullRequest (Unmarshal_Issue D foldName (JObject ms) new_Issue) =
             (case map_of ms ''pull_request'' of None \<Rightarrow> False | Some v \<Rightarrow> v \<noteq> JNull))"
proof -
  have nil: "Issue.PullRequestLinks new_Issue = None" by (simp add: new_Issue_def)
  have general: "IsPullRequest (Unmarshal_Issue D foldName (JObject ms) new_Issue) =
       (case pull_request_values foldName ms of
          [] \<Rightarrow> False
        | v # vs \<Rightarrow> last (v # vs) \<noteq> JNull)"
    using decode_members_links [of D foldName ms new_Issue] nil
    by (simp add: IsPullRequest_def Unmarshal_Issue_def split: list.splits)
  have exact: "IsPullRequest (Unmarshal_Issue D foldName (JObject ms) new_Issue) =
             (case map_of ms ''pull_request'' of None \<Rightarrow> False | Some v \<Rightarrow> v \<noteq> JNull)"
    if d: "distinct (map fst ms)"
      and f: "\<forall>n \<in> fst ` set ms. foldName n = foldName ''pull_request'' \<longrightarrow> n = ''pull_request''"
  proof -
    have "filter (\<lambda>m. field_for foldName Issue_tags (fst m) = Some ''pull_request'') ms =
          filter (\<lambda>m. fst m = ''pull_request'') ms"
      using f by (intro filter_cong refl) (auto simp: field_for_pull_request)
    then have "pull_request_values foldName ms =
          (case map_of ms ''pull_request'' of None \<Rightarrow> [] | Some v \<Rightarrow> [v])"
      using values_distinct [OF d] by (simp add: pull_request_values_def)
    with general show ?thesis by (simp split: option.splits)
  qed
  show ?thesis using general exact by (simp add: IsPullRequest_def)
qed

theorem IsPullRequest_decoded_witness:
  "IsPullRequest (Unmarshal_Issue example_decoders ascii_upper
      (JObject [(''number'', JNumber 1), (''pull_request'', JObject [(''url'', JString ''u'')])])
      new_Issue)
   \<and> \<not> IsPullRequest (Unmarshal_Issue example_decoders ascii_upper
      (JObject [(''number'', JNumber 1), (''title'', JString ''t'')]) new_Issue)
   \<and> \<not> IsPullRequest (Unmarshal_Issue example_decoders ascii_upper
      (JObject [(''number'', JNumber 1), (''pull_request'', JNull)]) new_Issue)"
proof -
  let ?a = "[(''number'', JNumber 1), (''pull_request'', JObject [(''url'', JString ''u'')])]"
  let ?b = "[(''number'', JNumber 1), (''title'', JString ''t'')]"
  let ?c = "[(''number'', JNumber 1), (''pull_request'', JNull)]"
  have ha: "distinct (map fst ?a) \<and> (\<forall>n \<in> fst ` set ?a.
      ascii_upper n = ascii_upper ''pull_request'' \<longrightarrow> n = ''pull_request'')"
    by (simp add: ascii_upper_def)
  have hb: "distinct (map fst ?b) \<and> (\<forall>n \<in> fst ` set ?b.
      ascii_upper n = ascii_upper ''pull_request'' \<longrightarrow> n = ''pull_request'')"
    by (simp add: ascii_upper_def)
  have hc: "distinct (map fst ?c) \<and> (\<forall>n \<in> fst ` set ?c.
      ascii_upper n = ascii_upper ''pull_request'' \<longrightarrow> n = ''pull_request'')"
    by (simp add: ascii_upper_def)
  have ta: "IsPullRequest (Unmarshal_Issue example_decoders ascii_upper (JObject ?a) new_Issue)"
    using IsPullRequest_decoded [of new_Issue example_decoders ascii_upper ?a,
        THEN conjunct2, THEN conjunct2, rule_format, OF ha]
    by simp
  have tb: "\<not> IsPullRequest (Unmarshal_Issue example_decoders ascii_upper (JObject ?b) new_Issue)"
    using IsPullRequest_decoded [of new_Issue example_decoders ascii_upper ?b,
        THEN conjunct2, THEN conjunct2, rule_format, OF hb]
    by simp
  have tc: "\<not> IsPullRequest (Unmarshal_Issue example_decoders ascii_upper (JObject ?c) new_Issue)"
    using IsPullRequest_decoded [of new_Issue example_decoders ascii_upper ?c,
        THEN conjunct2, THEN conjunct2, rule_format, OF hc]
    by simp
  show ?thesis using ta tb tc by blast
qed

text \<open>A member whose name is a case variant of the tag goes to the field as well.\<close>

lemma decode_case_variant:
  "IsPullRequest (Unmarshal_Issue example_decoders ascii_upper
      (JObject [(''Pull_Request'', JObject [])]) new_Issue)"
  by (simp add: Unmarshal_Issue_def field_for_def Issue_tags_def ascii_upper_def
        store_Issue_field_def store_ptr_def IsPullRequest_def)

end
